theory Spec2Isabelle
  imports Complex_Main
begin

section \<open>Python strings\<close>

text \<open>
  A Python \<open>str\<close> is modelled as a \<open>string\<close>, one \<open>char\<close> per code point, so the
  strings of the model are the strings over the code points 0 to 255. On these
  \<open>lower\<close> is \<open>str.lower()\<close>: it changes the letters \<open>A\<close> to \<open>Z\<close> and the letters
  0xC0 to 0xDE (without the sign 0xD7), each to the code point 0x20 above it.
\<close>

definition ascii_uppercase :: string where
  "ascii_uppercase = ''ABCDEFGHIJKLMNOPQRSTUVWXYZ''"

definition ascii_lowercase :: string where
  "ascii_lowercase = ''abcdefghijklmnopqrstuvwxyz''"

definition latin1_uppercase :: string where
  "latin1_uppercase =
     [CHR 0xC0, CHR 0xC1, CHR 0xC2, CHR 0xC3, CHR 0xC4, CHR 0xC5, CHR 0xC6, CHR 0xC7,
      CHR 0xC8, CHR 0xC9, CHR 0xCA, CHR 0xCB, CHR 0xCC, CHR 0xCD, CHR 0xCE, CHR 0xCF,
      CHR 0xD0, CHR 0xD1, CHR 0xD2, CHR 0xD3, CHR 0xD4, CHR 0xD5, CHR 0xD6, CHR 0xD8,
      CHR 0xD9, CHR 0xDA, CHR 0xDB, CHR 0xDC, CHR 0xDD, CHR 0xDE]"

definition latin1_lowercase :: string where
  "latin1_lowercase =
     [CHR 0xE0, CHR 0xE1, CHR 0xE2, CHR 0xE3, CHR 0xE4, CHR 0xE5, CHR 0xE6, CHR 0xE7,
      CHR 0xE8, CHR 0xE9, CHR 0xEA, CHR 0xEB, CHR 0xEC, CHR 0xED, CHR 0xEE, CHR 0xEF,
      CHR 0xF0, CHR 0xF1, CHR 0xF2, CHR 0xF3, CHR 0xF4, CHR 0xF5, CHR 0xF6, CHR 0xF8,
      CHR 0xF9, CHR 0xFA, CHR 0xFB, CHR 0xFC, CHR 0xFD, CHR 0xFE]"

definition uppercase_letters :: string where
  "uppercase_letters = ascii_uppercase @ latin1_uppercase"

definition lowercase_letters :: string where
  "lowercase_letters = ascii_lowercase @ latin1_lowercase"

definition lower_char :: "char \<Rightarrow> char" where
  "lower_char c =
     (case map_of (zip uppercase_letters lowercase_letters) c of Some d \<Rightarrow> d | None \<Rightarrow> c)"

text \<open>\<open>s.lower()\<close>.\<close>

definition lower :: "string \<Rightarrow> string" where
  "lower s = map lower_char s"

text \<open>
  \<open>str.upper()\<close> leaves the strings of the model: the upper case of 0xB5 is the code
  point 0x39C, that of 0xFF is 0x178, and that of 0xDF is the two letters \<open>SS\<close>. So
  \<open>upper\<close> gives the list of the code points of \<open>s.upper()\<close>, and \<open>points\<close> gives the
  code points of a string of the model.
\<close>

definition points :: "string \<Rightarrow> nat list" where
  "points s = map of_char s"

definition upper_char :: "char \<Rightarrow> nat list" where
  "upper_char c =
     (case map_of (zip lowercase_letters uppercase_letters) c of
        Some d \<Rightarrow> points [d]
      | None \<Rightarrow>
          if c = CHR 0xDF then points ''SS''
          else if c = CHR 0xB5 then [0x39C]
          else if c = CHR 0xFF then [0x178]
          else points [c])"

definition upper :: "string \<Rightarrow> nat list" where
  "upper s = concat (map upper_char s)"

text \<open>
  \<open>c.isspace()\<close> for the code points below 256: tab, line feed, vertical tab, form
  feed, carriage return, the four separators 0x1C to 0x1F, space, 0x85 and 0xA0.
\<close>

definition isspace :: "char \<Rightarrow> bool" where
  "isspace c \<longleftrightarrow>
     c \<in> set [CHR 0x09, CHR 0x0A, CHR 0x0B, CHR 0x0C, CHR 0x0D,
               CHR 0x1C, CHR 0x1D, CHR 0x1E, CHR 0x1F, CHR 0x20, CHR 0x85, CHR 0xA0]"

text \<open>\<open>s.strip()\<close>: white space removed at both ends.\<close>

definition strip :: "string \<Rightarrow> string" where
  "strip s = rev (dropWhile isspace (rev (dropWhile isspace s)))"

text \<open>\<open>s.startswith(p)\<close>.\<close>

fun startswith :: "string \<Rightarrow> string \<Rightarrow> bool" where
  "startswith [] s = True"
| "startswith (p # ps) [] = False"
| "startswith (p # ps) (c # cs) = (p = c \<and> startswith ps cs)"

text \<open>\<open>sub in s\<close>: \<open>sub\<close> occurs in \<open>s\<close> as a contiguous block.\<close>

fun str_in :: "string \<Rightarrow> string \<Rightarrow> bool" where
  "str_in sub [] = (sub = [])"
| "str_in sub (c # cs) = (startswith sub (c # cs) \<or> str_in sub cs)"

text \<open>
  \<open>s.find(sub)\<close>: the index of the first occurrence of \<open>sub\<close> in \<open>s\<close>, \<open>-1\<close>
  when there is none. \<open>find_from sub s i\<close> searches the rest \<open>s\<close> of a string whose
  first character has index \<open>i\<close>.
\<close>

fun find_from :: "string \<Rightarrow> string \<Rightarrow> int \<Rightarrow> int" where
  "find_from sub [] i = (if sub = [] then i else - 1)"
| "find_from sub (c # cs) i = (if startswith sub (c # cs) then i else find_from sub cs (i + 1))"

definition str_find :: "string \<Rightarrow> string \<Rightarrow> int" where
  "str_find s sub = find_from sub s 0"

text \<open>\<open>sep.join(xs)\<close>.\<close>

fun join :: "string \<Rightarrow> string list \<Rightarrow> string" where
  "join sep [] = []"
| "join sep [x] = x"
| "join sep (x # y # ys) = x @ sep @ join sep (y # ys)"

text \<open>
  \<open>s.replace(old, new)\<close>, every occurrence from left to right without overlap. The
  counter of \<open>replace_from\<close> is the number of characters of a replaced occurrence
  that are still to be skipped. With an empty \<open>old\<close> Python puts \<open>new\<close> before every
  character and at the end.
\<close>

fun replace_from :: "string \<Rightarrow> string \<Rightarrow> nat \<Rightarrow> string \<Rightarrow> string" where
  "replace_from old new k [] = []"
| "replace_from old new (Suc k) (c # cs) = replace_from old new k cs"
| "replace_from old new 0 (c # cs) =
     (if startswith old (c # cs) then new @ replace_from old new (length old - 1) cs
      else c # replace_from old new 0 cs)"

definition replace :: "string \<Rightarrow> string \<Rightarrow> string \<Rightarrow> string" where
  "replace s old new =
     (if old = [] then new @ concat (map (\<lambda>c. c # new) s) else replace_from old new 0 s)"

text \<open>
  \<open>s.title()\<close> on an ASCII string, which is all the program applies it to (the values
  of \<open>alternative_map\<close>): a letter that follows a letter is lower-cased, any other
  letter is upper-cased. The flag says whether the previous character was a letter.
\<close>

definition ascii_upper :: "char \<Rightarrow> char" where
  "ascii_upper c =
     (case map_of (zip ascii_lowercase ascii_uppercase) c of Some d \<Rightarrow> d | None \<Rightarrow> c)"

definition ascii_letter :: "char \<Rightarrow> bool" where
  "ascii_letter c \<longleftrightarrow> c \<in> set ascii_uppercase \<or> c \<in> set ascii_lowercase"

fun title_from :: "bool \<Rightarrow> string \<Rightarrow> string" where
  "title_from prev [] = []"
| "title_from prev (c # cs) =
     (if ascii_letter c then (if prev then lower_char c else ascii_upper c) # title_from True cs
      else c # title_from False cs)"

definition title :: "string \<Rightarrow> string" where
  "title s = title_from False s"

section \<open>dataset\_loader.py\<close>

text \<open>
  One row of the HODDI table. The two identifier columns are read with
  \<open>self.hoddi_data['...']\<close>; \<open>severity\<close> and \<open>description\<close> are read with
  \<open>.get(column, default)\<close>, so they may be absent (\<open>None\<close>).
\<close>

record hoddi_row =
  drug1_drugbank_id :: string
  drug2_drugbank_id :: string
  severity :: "string option"
  description :: "string option"

text \<open>
  The loader after \<open>load_datasets\<close>. \<open>drug_mapping\<close> is the dictionary read from
  the JSON file, as the list of its items in iteration order.
\<close>

record DatasetLoader =
  hoddi_data :: "hoddi_row list"
  drug_mapping :: "(string \<times> string) list"

text \<open>The fuzzy pass of \<open>get_drugbank_id\<close>: the loop over \<open>self.drug_mapping.items()\<close>.\<close>

fun fuzzy_match :: "string \<Rightarrow> (string \<times> string) list \<Rightarrow> string option" where
  "fuzzy_match drug_name_lower [] = None"
| "fuzzy_match drug_name_lower ((mapped_name, drugbank_id) # items) =
     (if str_in drug_name_lower mapped_name \<or> str_in mapped_name drug_name_lower
      then Some drugbank_id
      else fuzzy_match drug_name_lower items)"

text \<open>
  \<open>get_drugbank_id\<close> returns a table entry or the sentinel, whose upper-cased part may
  leave the strings of the model: the value is the list of the code points of the
  returned \<open>str\<close>.
\<close>

definition get_drugbank_id :: "DatasetLoader \<Rightarrow> string \<Rightarrow> nat list" where
  "get_drugbank_id self drug_name =
     (let drug_name_lower = strip (lower drug_name) in
      case map_of (drug_mapping self) drug_name_lower of
        Some drugbank_id \<Rightarrow> points drugbank_id
      | None \<Rightarrow>
          (case fuzzy_match drug_name_lower (drug_mapping self) of
             Some drugbank_id \<Rightarrow> points drugbank_id
           | None \<Rightarrow> points ''DB_UNKNOWN_'' @ upper drug_name))"

text \<open>The row selection of \<open>check_drug_interaction\<close>: both directions of the pair.\<close>

definition row_matches :: "nat list \<Rightarrow> nat list \<Rightarrow> hoddi_row \<Rightarrow> bool" where
  "row_matches drug1_id drug2_id row \<longleftrightarrow>
     (points (drug1_drugbank_id row) = drug1_id \<and> points (drug2_drugbank_id row) = drug2_id) \<or>
     (points (drug1_drugbank_id row) = drug2_id \<and> points (drug2_drugbank_id row) = drug1_id)"

definition check_drug_interaction :: "DatasetLoader \<Rightarrow> string \<Rightarrow> string \<Rightarrow> string" where
  "check_drug_interaction self drug1 drug2 =
     (if hoddi_data self = [] then ''Dataset not available''
      else
        (let drug1_id = get_drugbank_id self drug1;
             drug2_id = get_drugbank_id self drug2;
             interaction = filter (row_matches drug1_id drug2_id) (hoddi_data self)
         in case interaction of
              [] \<Rightarrow> ''None''
            | row # _ \<Rightarrow>
                (case severity row of Some s \<Rightarrow> s | None \<Rightarrow> ''Unknown'') @ '': '' @
                (case description row of Some d \<Rightarrow> d | None \<Rightarrow> ''Drug interaction detected'')))"

text \<open>
  The dictionary that \<open>get_interaction\<close> builds for one drug; \<open>drugbank_id\<close> holds
  what \<open>get_drugbank_id\<close> returns.
\<close>

record interaction_result =
  drug :: string
  drugbank_id :: "nat list"
  interaction :: string

text \<open>
  The inner loop of \<open>get_interaction\<close> for the drug at index \<open>i\<close>, over
  \<open>enumerate(drugs)\<close>.
\<close>

fun collect_interactions ::
  "DatasetLoader \<Rightarrow> nat \<Rightarrow> string \<Rightarrow> (nat \<times> string) list \<Rightarrow> string list" where
  "collect_interactions self i d [] = []"
| "collect_interactions self i d ((j, other_drug) # rest) =
     (if i \<noteq> j then
        (let interaction = check_drug_interaction self d other_drug in
         if interaction \<noteq> ''None''
         then (''with '' @ other_drug @ '': '' @ interaction) # collect_interactions self i d rest
         else collect_interactions self i d rest)
      else collect_interactions self i d rest)"

definition drug_result :: "DatasetLoader \<Rightarrow> string list \<Rightarrow> nat \<times> string \<Rightarrow> interaction_result" where
  "drug_result self drugs p =
     (let interactions = collect_interactions self (fst p) (snd p) (enumerate 0 drugs) in
      \<lparr> drug = strip (snd p),
        drugbank_id = get_drugbank_id self (snd p),
        interaction = (if interactions \<noteq> [] then join ''; '' interactions else ''None'') \<rparr>)"

definition get_interaction :: "DatasetLoader \<Rightarrow> string list \<Rightarrow> interaction_result list" where
  "get_interaction self drugs = map (drug_result self drugs) (enumerate 0 drugs)"

section \<open>main.py: the risk rules\<close>

record DrugInfo =
  name :: string
  dosage :: string
  frequency :: string
  info_drugbank_id :: "nat list option"
  info_interaction :: "string option"

record DosageAdvice =
  advice_drug :: string
  current_dosage :: string
  recommended_dosage :: string
  advice :: string
  risk_level :: string

record Alternative =
  original_drug :: string
  alternative :: string
  reason :: string

definition extract_severity :: "string \<Rightarrow> string" where
  "extract_severity interaction_text =
     (let interaction_lower = lower interaction_text in
      if str_in ''severe'' interaction_lower \<or> str_in ''major'' interaction_lower then ''High''
      else if str_in ''moderate'' interaction_lower \<or> str_in ''warning'' interaction_lower
      then ''Medium''
      else ''Low'')"

text \<open>
  The two loops of \<open>_calculate_overall_risk\<close>, on the pair
  \<open>(high_risk_count, medium_risk_count)\<close>.
\<close>

fun count_interaction_risks :: "interaction_result list \<Rightarrow> nat \<times> nat \<Rightarrow> nat \<times> nat" where
  "count_interaction_risks [] (high, medium) = (high, medium)"
| "count_interaction_risks (result # rest) (high, medium) =
     (if interaction result \<noteq> ''None'' then
        (let severity = extract_severity (interaction result) in
         if severity = ''High'' then count_interaction_risks rest (high + 1, medium)
         else if severity = ''Medium'' then count_interaction_risks rest (high, medium + 1)
         else count_interaction_risks rest (high, medium))
      else count_interaction_risks rest (high, medium))"

fun count_dosage_risks :: "DosageAdvice list \<Rightarrow> nat \<times> nat \<Rightarrow> nat \<times> nat" where
  "count_dosage_risks [] (high, medium) = (high, medium)"
| "count_dosage_risks (a # rest) (high, medium) =
     (if risk_level a = ''High'' then count_dosage_risks rest (high + 1, medium)
      else if risk_level a = ''Medium'' then count_dosage_risks rest (high, medium + 1)
      else count_dosage_risks rest (high, medium))"

definition calculate_overall_risk :: "interaction_result list \<Rightarrow> DosageAdvice list \<Rightarrow> string" where
  "calculate_overall_risk interaction_results dosage_advice =
     (case count_dosage_risks dosage_advice (count_interaction_risks interaction_results (0, 0)) of
        (high_risk_count, medium_risk_count) \<Rightarrow>
          if high_risk_count > 0 then ''High''
          else if medium_risk_count > 0 then ''Medium''
          else ''Low'')"

section \<open>main.py: dosage advice and alternatives\<close>

text \<open>The loop body of \<open>_get_age_based_dosage_advice\<close> for one drug.\<close>

definition dosage_advice_for :: "int \<Rightarrow> DrugInfo \<Rightarrow> DosageAdvice" where
  "dosage_advice_for age d =
     (let current_dosage = dosage d in
      if age < 18 then
        (if str_in ''500mg'' current_dosage then
           \<lparr> advice_drug = name d, current_dosage = current_dosage,
             recommended_dosage = replace current_dosage ''500mg'' ''250mg'',
             advice = ''Reduced dosage recommended for pediatric patients'',
             risk_level = ''Medium'' \<rparr>
         else if str_in ''1000mg'' current_dosage then
           \<lparr> advice_drug = name d, current_dosage = current_dosage,
             recommended_dosage = replace current_dosage ''1000mg'' ''500mg'',
             advice = ''Significantly reduced dosage for pediatric use'',
             risk_level = ''High'' \<rparr>
         else
           \<lparr> advice_drug = name d, current_dosage = current_dosage,
             recommended_dosage = current_dosage,
             advice = ''Verify pediatric dosing guidelines'',
             risk_level = ''Medium'' \<rparr>)
      else if age > 65 then
        (if str_in ''1000mg'' current_dosage then
           \<lparr> advice_drug = name d, current_dosage = current_dosage,
             recommended_dosage = replace current_dosage ''1000mg'' ''750mg'',
             advice = ''Reduced dosage recommended for elderly patients'',
             risk_level = ''Medium'' \<rparr>
         else if str_in ''500mg'' current_dosage \<and> str_in ''3/day'' (frequency d) then
           \<lparr> advice_drug = name d, current_dosage = current_dosage,
             recommended_dosage = current_dosage,
             advice = ''Consider reducing frequency for elderly patients'',
             risk_level = ''Medium'' \<rparr>
         else
           \<lparr> advice_drug = name d, current_dosage = current_dosage,
             recommended_dosage = current_dosage,
             advice = ''Standard adult dosage appropriate'',
             risk_level = ''Low'' \<rparr>)
      else
        \<lparr> advice_drug = name d, current_dosage = current_dosage,
          recommended_dosage = current_dosage,
          advice = ''Standard adult dosage appropriate'',
          risk_level = ''Low'' \<rparr>)"

definition get_age_based_dosage_advice :: "DrugInfo list \<Rightarrow> int \<Rightarrow> DosageAdvice list" where
  "get_age_based_dosage_advice drugs age = map (dosage_advice_for age) drugs"

definition alternative_map :: "(string \<times> string) list" where
  "alternative_map =
     [(''paracetamol'', ''ibuprofen''),
      (''acetaminophen'', ''ibuprofen''),
      (''aspirin'', ''paracetamol''),
      (''ibuprofen'', ''naproxen''),
      (''warfarin'', ''rivaroxaban''),
      (''metformin'', ''glipizide'')]"

text \<open>The loop of \<open>_suggest_alternatives\<close>; the function returns \<open>alternatives[:2]\<close>.\<close>

fun collect_alternatives :: "interaction_result list \<Rightarrow> Alternative list" where
  "collect_alternatives [] = []"
| "collect_alternatives (result # rest) =
     (if interaction result \<noteq> ''None'' \<and> str_in ''severe'' (lower (interaction result)) then
        (case map_of alternative_map (lower (drug result)) of
           Some alt \<Rightarrow>
             \<lparr> original_drug = drug result,
               alternative = title alt,
               reason = ''Safer alternative due to interaction risk: '' @ interaction result \<rparr>
             # collect_alternatives rest
         | None \<Rightarrow> collect_alternatives rest)
      else collect_alternatives rest)"

definition suggest_alternatives :: "DrugInfo list \<Rightarrow> interaction_result list \<Rightarrow> Alternative list" where
  "suggest_alternatives drugs interaction_results = take 2 (collect_alternatives interaction_results)"

section \<open>main.py: the two analysis endpoints\<close>

text \<open>
  A built-in exception with its message, which is what \<open>str(e)\<close> gives.
\<close>

datatype exn =
  RuntimeError string
| ValueError string
| OtherException string

fun str_exn :: "exn \<Rightarrow> string" where
  "str_exn (RuntimeError msg) = msg"
| "str_exn (ValueError msg) = msg"
| "str_exn (OtherException msg) = msg"

text \<open>
  What an endpoint raises: an \<open>HTTPException\<close> with \<open>status_code\<close> and \<open>detail\<close>,
  or a built-in exception.
\<close>

datatype raised =
  HTTPException nat string
| Exception exn

text \<open>One entry of \<open>extraction_result["drugs"]\<close>, read by the keys \<open>name\<close>, \<open>dosage\<close>, \<open>frequency\<close>.\<close>

record extracted_drug =
  x_name :: string
  x_dosage :: string
  x_frequency :: string

text \<open>One entry of the \<open>interactions\<close> summary of a response.\<close>

record interaction_summary =
  sum_drug :: string
  sum_drugbank_id :: "nat list"
  sum_interaction :: string
  sum_severity :: string

record AnalysisResponse =
  extracted_drugs :: "DrugInfo list"
  interactions :: "interaction_summary list"
  dosage_advice :: "DosageAdvice list"
  alternatives :: "Alternative list"
  overall_risk :: string
  timestamp :: string

record ImageAnalysisResponse =
  img_extracted_text :: string
  img_drugs :: "DrugInfo list"
  img_interactions :: "interaction_summary list"
  img_dosage_advice :: "DosageAdvice list"
  img_alternatives :: "Alternative list"
  img_overall_risk :: string
  img_timestamp :: string

text \<open>
  The collaborators of the endpoints that are not part of the modelled code are taken
  as parameters: \<open>extract_drugs\<close> is \<open>drug_extractor.extract_drugs\<close> followed by
  \<open>.get("drugs", [])\<close> (it returns the drug list or raises), \<open>http_str\<close> is \<open>str(e)\<close>
  on an \<open>HTTPException\<close> with the given status code and detail, \<open>now\<close> is
  \<open>datetime.now().isoformat()\<close>.
\<close>

record services =
  extract_drugs :: "string \<Rightarrow> exn + extracted_drug list"
  dataset_loader :: DatasetLoader
  http_str :: "nat \<Rightarrow> string \<Rightarrow> string"
  now :: string

text \<open>\<open>str(e)\<close> in the handlers of the endpoints.\<close>

fun str_raised :: "services \<Rightarrow> raised \<Rightarrow> string" where
  "str_raised sv (HTTPException code detail) = http_str sv code detail"
| "str_raised sv (Exception e) = str_exn e"

text \<open>The loop that enhances one extracted drug with its interaction result.\<close>

definition enhance_drug :: "interaction_result list \<Rightarrow> extracted_drug \<Rightarrow> DrugInfo" where
  "enhance_drug interaction_results d =
     (case List.find (\<lambda>result. lower (drug result) = lower (x_name d)) interaction_results of
        Some result \<Rightarrow>
          \<lparr> name = x_name d, dosage = x_dosage d, frequency = x_frequency d,
            info_drugbank_id = Some (drugbank_id result),
            info_interaction = Some (interaction result) \<rparr>
      | None \<Rightarrow>
          \<lparr> name = x_name d, dosage = x_dosage d, frequency = x_frequency d,
            info_drugbank_id = None,
            info_interaction = Some ''None'' \<rparr>)"

fun summarize_interactions :: "interaction_result list \<Rightarrow> interaction_summary list" where
  "summarize_interactions [] = []"
| "summarize_interactions (result # rest) =
     (if interaction result \<noteq> ''None'' then
        \<lparr> sum_drug = drug result, sum_drugbank_id = drugbank_id result,
          sum_interaction = interaction result,
          sum_severity = extract_severity (interaction result) \<rparr>
        # summarize_interactions rest
      else summarize_interactions rest)"

text \<open>The body of the \<open>try\<close> block of \<open>analyze_prescription\<close>.\<close>

definition analyze_prescription_body :: "services \<Rightarrow> int \<Rightarrow> string \<Rightarrow> raised + AnalysisResponse" where
  "analyze_prescription_body sv age prescription_text =
     (case extract_drugs sv prescription_text of
        Inl e \<Rightarrow> Inl (Exception e)
      | Inr extracted \<Rightarrow>
          if extracted = [] then Inl (HTTPException 400 ''No drugs found in prescription text'')
          else
            (let drug_names = map x_name extracted;
                 interaction_results = get_interaction (dataset_loader sv) drug_names;
                 enhanced_drugs = map (enhance_drug interaction_results) extracted;
                 advice_list = get_age_based_dosage_advice enhanced_drugs age;
                 alts = suggest_alternatives enhanced_drugs interaction_results;
                 risk = calculate_overall_risk interaction_results advice_list
             in Inr \<lparr> extracted_drugs = enhanced_drugs,
                      interactions = summarize_interactions interaction_results,
                      dosage_advice = advice_list,
                      alternatives = alts,
                      overall_risk = risk,
                      timestamp = now sv \<rparr>))"

text \<open>
  \<open>analyze_prescription\<close>: the handler \<open>except Exception as e\<close> catches every
  exception of the body, \<open>HTTPException\<close> included, and raises status 500.
\<close>

definition analyze_prescription :: "services \<Rightarrow> int \<Rightarrow> string \<Rightarrow> raised + AnalysisResponse" where
  "analyze_prescription sv age prescription_text =
     (case analyze_prescription_body sv age prescription_text of
        Inl e \<Rightarrow> Inl (HTTPException 500 (''Analysis failed: '' @ str_raised sv e))
      | Inr response \<Rightarrow> Inr response)"

text \<open>
  The uploaded image: its content type, and what \<open>ocr_reader.extract_text_from_image\<close>
  gives on its saved copy (the text, or an exception).
\<close>

record upload =
  content_type :: "string option"
  ocr_outcome :: "exn + string"

definition analyze_prescription_image_body ::
  "services \<Rightarrow> int \<Rightarrow> upload \<Rightarrow> raised + ImageAnalysisResponse" where
  "analyze_prescription_image_body sv age img =
     (if \<not> (case content_type img of None \<Rightarrow> False
               | Some ct \<Rightarrow> ct \<noteq> [] \<and> startswith ''image/'' ct)
      then Inl (HTTPException 400 ''Invalid image format. Please upload JPG or PNG.'')
      else
        (case ocr_outcome img of
           Inl e \<Rightarrow> Inl (Exception e)
         | Inr extracted_text \<Rightarrow>
             if extracted_text = [] \<or> length (strip extracted_text) < 10 then
               Inl (HTTPException 400
                 ''Could not extract readable text from image. Please ensure the image is clear and contains prescription text.'')
             else
               (case extract_drugs sv extracted_text of
                  Inl e \<Rightarrow> Inl (Exception e)
                | Inr extracted \<Rightarrow>
                    if extracted = [] then
                      Inl (HTTPException 400
                        ''No drugs found in prescription image. Please ensure the image contains a valid prescription.'')
                    else
                      (let drug_names = map x_name extracted;
                           interaction_results = get_interaction (dataset_loader sv) drug_names;
                           enhanced_drugs = map (enhance_drug interaction_results) extracted;
                           advice_list = get_age_based_dosage_advice enhanced_drugs age;
                           alts = suggest_alternatives enhanced_drugs interaction_results;
                           risk = calculate_overall_risk interaction_results advice_list
                       in Inr \<lparr> img_extracted_text = extracted_text,
                                img_drugs = enhanced_drugs,
                                img_interactions = summarize_interactions interaction_results,
                                img_dosage_advice = advice_list,
                                img_alternatives = alts,
                                img_overall_risk = risk,
                                img_timestamp = now sv \<rparr>))))"

text \<open>
  \<open>analyze_prescription_image\<close>: \<open>except HTTPException: raise\<close> lets an
  \<open>HTTPException\<close> through; any other exception becomes status 500.
\<close>

definition analyze_prescription_image ::
  "services \<Rightarrow> int \<Rightarrow> upload \<Rightarrow> raised + ImageAnalysisResponse" where
  "analyze_prescription_image sv age img =
     (case analyze_prescription_image_body sv age img of
        Inl (HTTPException code detail) \<Rightarrow> Inl (HTTPException code detail)
      | Inl (Exception e) \<Rightarrow> Inl (HTTPException 500 (''Image analysis failed: '' @ str_exn e))
      | Inr response \<Rightarrow> Inr response)"

section \<open>medical\_nlp\_extractor.py: fusion and attribute binding\<close>

text \<open>
  An element of \<open>result['drugs']\<close>: a dictionary with its optional \<open>name\<close> and
  \<open>text\<close> entries, or any other object with what \<open>str(drug)\<close> gives.
\<close>

datatype drug_item =
  DrugDict "string option" "string option"
| DrugOther string

fun item_name :: "drug_item \<Rightarrow> string" where
  "item_name (DrugDict nm tx) =
     (case nm of Some n \<Rightarrow> n | None \<Rightarrow> (case tx of Some t \<Rightarrow> t | None \<Rightarrow> []))"
| "item_name (DrugOther s) = s"

text \<open>The dictionary under \<open>results\<close> of the pattern extractor; every key may be absent.\<close>

record pattern_results =
  p_drugs :: "string list option"
  dosages :: "string list option"
  frequencies :: "string list option"
  routes :: "string list option"
  durations :: "string list option"

text \<open>
  The result dictionary of one extractor; every key may be absent. The key \<open>method\<close> is
  the field \<open>method_name\<close>.
\<close>

record extraction =
  method_name :: "string option"
  confidence :: "real option"
  drugs :: "drug_item list option"
  drug_candidates :: "string list option"
  results :: "pattern_results option"

text \<open>A value of \<open>all_drugs\<close>.\<close>

record stored =
  stored_name :: string
  stored_confidence :: real
  stored_method :: string

record DrugEntity =
  entity_name :: string
  entity_dosage :: string
  entity_frequency :: string
  entity_route :: string
  entity_duration :: string
  entity_instructions :: string
  entity_confidence :: real

text \<open>
  \<open>d[k] = v\<close> on a dictionary kept as the list of its items in insertion order: a key
  that is present keeps its place, a new key goes to the end.
\<close>

fun dict_set :: "'k \<Rightarrow> 'v \<Rightarrow> ('k \<times> 'v) list \<Rightarrow> ('k \<times> 'v) list" where
  "dict_set k v [] = [(k, v)]"
| "dict_set k v ((k', v') # items) =
     (if k' = k then (k, v) # items else (k', v') # dict_set k v items)"

text \<open>
  The statement that all three branches of \<open>_combine_drug_extractions\<close> run on a name:
  \<open>if name_key not in all_drugs or all_drugs[name_key]['confidence'] < confidence\<close>.
\<close>

definition store_if_better ::
  "string \<Rightarrow> real \<Rightarrow> string \<Rightarrow> (string \<times> stored) list \<Rightarrow> (string \<times> stored) list" where
  "store_if_better mth conf nm all_drugs =
     (let name_key = strip (lower nm);
          entry = \<lparr> stored_name = nm, stored_confidence = conf, stored_method = mth \<rparr>
      in case map_of all_drugs name_key of
           None \<Rightarrow> dict_set name_key entry all_drugs
         | Some old \<Rightarrow>
             if stored_confidence old < conf then dict_set name_key entry all_drugs
             else all_drugs)"

text \<open>The loop of the \<open>drugs\<close> branch, with its test \<open>name and len(name) > 2\<close>.\<close>

fun collect_drugs ::
  "string \<Rightarrow> real \<Rightarrow> drug_item list \<Rightarrow> (string \<times> stored) list \<Rightarrow> (string \<times> stored) list" where
  "collect_drugs mth conf [] all_drugs = all_drugs"
| "collect_drugs mth conf (d # rest) all_drugs =
     (let nm = item_name d in
      if nm \<noteq> [] \<and> length nm > 2
      then collect_drugs mth conf rest (store_if_better mth conf nm all_drugs)
      else collect_drugs mth conf rest all_drugs)"

text \<open>The loop of the \<open>drug_candidates\<close> branch and of the \<open>results\<close> branch.\<close>

fun collect_names ::
  "string \<Rightarrow> real \<Rightarrow> string list \<Rightarrow> (string \<times> stored) list \<Rightarrow> (string \<times> stored) list" where
  "collect_names mth conf [] all_drugs = all_drugs"
| "collect_names mth conf (d # rest) all_drugs =
     collect_names mth conf rest (store_if_better mth conf d all_drugs)"

definition collect_result :: "extraction \<Rightarrow> (string \<times> stored) list \<Rightarrow> (string \<times> stored) list" where
  "collect_result result all_drugs =
     (let mth = (case method_name result of Some m \<Rightarrow> m | None \<Rightarrow> ''Unknown'');
          conf = (case confidence result of Some c \<Rightarrow> c | None \<Rightarrow> 0)
      in case drugs result of
           Some ds \<Rightarrow> collect_drugs mth conf ds all_drugs
         | None \<Rightarrow>
             (case drug_candidates result of
                Some cs \<Rightarrow> collect_names mth conf cs all_drugs
              | None \<Rightarrow>
                  (case results result of
                     Some pr \<Rightarrow>
                       collect_names mth conf (case p_drugs pr of Some ds \<Rightarrow> ds | None \<Rightarrow> [])
                         all_drugs
                   | None \<Rightarrow> all_drugs)))"

fun collect_all :: "extraction list \<Rightarrow> (string \<times> stored) list \<Rightarrow> (string \<times> stored) list" where
  "collect_all [] all_drugs = all_drugs"
| "collect_all (result # rest) all_drugs = collect_all rest (collect_result result all_drugs)"

text \<open>
  The loop of \<open>_find_closest_match\<close> on the pair \<open>(closest_candidate, min_distance)\<close>;
  \<open>None\<close> is the initial \<open>float('inf')\<close>.
\<close>

fun closest_loop :: "string \<Rightarrow> int \<Rightarrow> string list \<Rightarrow> string \<times> int option \<Rightarrow> string" where
  "closest_loop text drug_pos [] (closest_candidate, min_distance) = closest_candidate"
| "closest_loop text drug_pos (candidate # rest) (closest_candidate, min_distance) =
     (let candidate_pos = str_find (lower text) (lower candidate) in
      if candidate_pos \<noteq> - 1 then
        (let distance = \<bar>candidate_pos - drug_pos\<bar> in
         if (case min_distance of None \<Rightarrow> True | Some m \<Rightarrow> distance < m)
         then closest_loop text drug_pos rest (candidate, Some distance)
         else closest_loop text drug_pos rest (closest_candidate, min_distance))
      else closest_loop text drug_pos rest (closest_candidate, min_distance))"

definition find_closest_match :: "string \<Rightarrow> string list \<Rightarrow> string \<Rightarrow> string" where
  "find_closest_match drug_name candidates text =
     (case candidates of
        [] \<Rightarrow> []
      | first # _ \<Rightarrow>
          (let drug_pos = str_find (lower text) (lower drug_name) in
           if drug_pos = - 1 then first
           else closest_loop text drug_pos candidates ([], None)))"

text \<open>\<open>pattern_data.get(key, [])\<close> on the \<open>results\<close> of the pattern extractor, if any.\<close>

definition pattern_list ::
  "pattern_results option \<Rightarrow> (pattern_results \<Rightarrow> string list option) \<Rightarrow> string list" where
  "pattern_list pattern_data key =
     (case pattern_data of
        None \<Rightarrow> []
      | Some pd \<Rightarrow> (case key pd of Some xs \<Rightarrow> xs | None \<Rightarrow> []))"

definition make_entity :: "pattern_results option \<Rightarrow> string \<Rightarrow> stored \<Rightarrow> DrugEntity" where
  "make_entity pattern_data text drug_data =
     \<lparr> entity_name = stored_name drug_data,
       entity_dosage =
         find_closest_match (stored_name drug_data) (pattern_list pattern_data dosages) text,
       entity_frequency =
         find_closest_match (stored_name drug_data) (pattern_list pattern_data frequencies) text,
       entity_route =
         find_closest_match (stored_name drug_data) (pattern_list pattern_data routes) text,
       entity_duration =
         find_closest_match (stored_name drug_data) (pattern_list pattern_data durations) text,
       entity_instructions = [],
       entity_confidence = stored_confidence drug_data \<rparr>"

definition combine_drug_extractions :: "extraction list \<Rightarrow> string \<Rightarrow> DrugEntity list" where
  "combine_drug_extractions rs text =
     (let all_drugs = collect_all rs [];
          pattern_data =
            (case List.find (\<lambda>r. method_name r = Some ''Pattern Matching'') rs of
               Some r \<Rightarrow> results r
             | None \<Rightarrow> None)
      in map (make_entity pattern_data text) (map snd all_drugs))"

section \<open>nlp\_extractor.py: the extraction entry point\<close>

text \<open>
  An element of the \<open>drugs\<close> list that the model query returns: a dictionary with its
  optional entries, or something that is not a dictionary.
\<close>

record gator_drug =
  g_drug_name :: "string option"
  g_name :: "string option"
  g_dosage :: "string option"
  g_frequency :: "string option"
  g_route :: "string option"

datatype gator_item =
  GatorDict gator_drug
| GatorOther

text \<open>The dictionary that \<open>query_gatortron\<close> returns: is \<open>error\<close> a key, and the \<open>drugs\<close> entry.\<close>

record gator_result =
  has_error :: bool
  g_drugs :: "gator_item list option"

record drug_info =
  drug_name :: string
  di_dosage :: string
  di_frequency :: string
  di_route :: string

text \<open>
  The two extraction engines are parameters: the model query, which returns its
  dictionary or raises, and the rule-based fallback on regular expressions.
\<close>

record ner_engines =
  query_gatortron :: "string \<Rightarrow> exn + gator_result"
  rule_based_extraction :: "string \<Rightarrow> drug_info list"

datatype engine_call = QueryGatortron | RuleBasedExtraction

definition or_empty :: "string option \<Rightarrow> string" where
  "or_empty v = (case v of Some s \<Rightarrow> s | None \<Rightarrow> [])"

fun standardize :: "gator_item list \<Rightarrow> drug_info list" where
  "standardize [] = []"
| "standardize (GatorOther # rest) = standardize rest"
| "standardize (GatorDict d # rest) =
     (let standardized_drug =
        \<lparr> drug_name = (case g_drug_name d of Some n \<Rightarrow> n | None \<Rightarrow> or_empty (g_name d)),
          di_dosage = or_empty (g_dosage d),
          di_frequency = or_empty (g_frequency d),
          di_route = or_empty (g_route d) \<rparr>
      in if drug_name standardized_drug \<noteq> [] then standardized_drug # standardize rest
         else standardize rest)"

text \<open>
  \<open>extract_drug_info\<close> returns the drug list; the second component is the list of
  the engines it has invoked, in order.
\<close>

definition extract_drug_info :: "ner_engines \<Rightarrow> string \<Rightarrow> drug_info list \<times> engine_call list" where
  "extract_drug_info self medical_text =
     (if medical_text = [] \<or> strip medical_text = [] then ([], [])
      else
        (let fallback =
               (rule_based_extraction self medical_text, [QueryGatortron, RuleBasedExtraction])
         in case query_gatortron self medical_text of
              Inl e \<Rightarrow> fallback
            | Inr result \<Rightarrow>
                (if \<not> has_error result then
                   (case g_drugs result of
                      None \<Rightarrow> fallback
                    | Some ds \<Rightarrow>
                        (let standardized_drugs = standardize ds in
                         if standardized_drugs \<noteq> [] then (standardized_drugs, [QueryGatortron])
                         else fallback))
                 else fallback)))"

section \<open>ocr\_reader.py: the acquisition cascade\<close>

record ocr_result =
  ocr_text :: string
  ocr_confidence :: real
  ocr_method :: string

datatype ocr_engine = PaddleOCR | IBMWatson | Tesseract

text \<open>
  What each of \<open>_extract_with_paddle_ocr\<close>, \<open>_extract_with_watson\<close> and
  \<open>_extract_with_tesseract\<close> returns on the image when it is invoked: a result
  dictionary or \<open>None\<close>.
\<close>

record ocr_engines =
  paddle :: "ocr_result option"
  watson :: "ocr_result option"
  tesseract :: "ocr_result option"

text \<open>\<open>max(ocr_results, key=lambda x: x['confidence'])\<close>: the first maximal element.\<close>

fun max_from :: "ocr_result \<Rightarrow> ocr_result list \<Rightarrow> ocr_result" where
  "max_from best [] = best"
| "max_from best (x # xs) =
     (if ocr_confidence best < ocr_confidence x then max_from x xs else max_from best xs)"

text \<open>
  The cascade of \<open>extract_text_from_image\<close>, from \<open>ocr_results = []\<close> to the final
  \<open>raise\<close>, in three parts: the first engine, the two fallback engines, and the choice
  among the retained results. The second component of the value is the list of the
  engines invoked, in order.
\<close>

definition best_available :: "ocr_result list \<Rightarrow> (exn + ocr_result) \<times> ocr_engine list" where
  "best_available ocr_results =
     (case ocr_results of
        x # xs \<Rightarrow> (Inr (max_from x xs), [PaddleOCR, IBMWatson, Tesseract])
      | [] \<Rightarrow>
          (Inl (RuntimeError ''Failed to extract text using all available OCR methods''),
           [PaddleOCR, IBMWatson, Tesseract]))"

definition ocr_fallbacks ::
  "ocr_engines \<Rightarrow> ocr_result list \<Rightarrow> (exn + ocr_result) \<times> ocr_engine list" where
  "ocr_fallbacks self ocr_results =
     (case watson self of
        Some watson_result \<Rightarrow> (Inr watson_result, [PaddleOCR, IBMWatson])
      | None \<Rightarrow>
          (case tesseract self of
             Some tesseract_result \<Rightarrow>
               if ocr_confidence tesseract_result > 0.4
               then (Inr tesseract_result, [PaddleOCR, IBMWatson, Tesseract])
               else best_available (ocr_results @ [tesseract_result])
           | None \<Rightarrow> best_available ocr_results))"

definition ocr_cascade :: "ocr_engines \<Rightarrow> (exn + ocr_result) \<times> ocr_engine list" where
  "ocr_cascade self =
     (case paddle self of
        Some paddle_result \<Rightarrow>
          if ocr_confidence paddle_result > 0.6 then (Inr paddle_result, [PaddleOCR])
          else ocr_fallbacks self [paddle_result]
      | None \<Rightarrow> ocr_fallbacks self [])"

text \<open>
  \<open>extract_text_from_image\<close>: \<open>prepared\<close> is the exception that opening, validating
  or preprocessing the image raises, if any. The handler turns every exception of the
  body into a \<open>RuntimeError\<close>.
\<close>

definition extract_text_from_image ::
  "ocr_engines \<Rightarrow> exn option \<Rightarrow> (exn + ocr_result) \<times> ocr_engine list" where
  "extract_text_from_image self prepared =
     (case prepared of
        Some e \<Rightarrow> (Inl (RuntimeError (''OCR extraction failed: '' @ str_exn e)), [])
      | None \<Rightarrow>
          (case ocr_cascade self of
             (Inl e, calls) \<Rightarrow> (Inl (RuntimeError (''OCR extraction failed: '' @ str_exn e)), calls)
           | (Inr r, calls) \<Rightarrow> (Inr r, calls)))"

section \<open>Notions used in the statements\<close>

text \<open>The two word tests of \<open>_extract_severity\<close>.\<close>

definition high_text :: "string \<Rightarrow> bool" where
  "high_text t \<longleftrightarrow> str_in ''severe'' (lower t) \<or> str_in ''major'' (lower t)"

definition medium_text :: "string \<Rightarrow> bool" where
  "medium_text t \<longleftrightarrow> str_in ''moderate'' (lower t) \<or> str_in ''warning'' (lower t)"

text \<open>The test of the fuzzy pass of \<open>get_drugbank_id\<close> on one mapped name.\<close>

definition fuzzy :: "string \<Rightarrow> string \<Rightarrow> bool" where
  "fuzzy drug_name_lower mapped_name \<longleftrightarrow>
     str_in drug_name_lower mapped_name \<or> str_in mapped_name drug_name_lower"

text \<open>A loader with one interaction record and two mapped names, and a loader with empty tables.\<close>

definition sample_loader :: DatasetLoader where
  "sample_loader =
     \<lparr> hoddi_data =
         [\<lparr> drug1_drugbank_id = ''DB00945'', drug2_drugbank_id = ''DB00682'',
            severity = Some ''Severe'', description = Some ''bleeding risk'' \<rparr>],
       drug_mapping = [(''aspirin'', ''DB00945''), (''warfarin'', ''DB00682'')] \<rparr>"

definition empty_loader :: DatasetLoader where
  "empty_loader = \<lparr> hoddi_data = [], drug_mapping = [] \<rparr>"

text \<open>
  Names with letters beyond ASCII: \<open>creme\<close> and \<open>cafe\<close> written with the accented
  \<open>e\<close> 0xE8 and 0xE9, in lower and in upper case (0xC8 and 0xC9), and a loader that
  maps the first.
\<close>

definition creme_lower :: string where
  "creme_lower = ''cr'' @ [CHR 0xE8] @ ''me''"

definition creme_upper :: string where
  "creme_upper = ''CR'' @ [CHR 0xC8] @ ''ME''"

definition cafe_lower :: string where
  "cafe_lower = ''caf'' @ [CHR 0xE9]"

definition cafe_upper :: string where
  "cafe_upper = ''CAF'' @ [CHR 0xC9]"

definition creme_loader :: DatasetLoader where
  "creme_loader = \<lparr> hoddi_data = [], drug_mapping = [(creme_lower, ''DB00001'')] \<rparr>"

text \<open>
  The detections that \<open>_combine_drug_extractions\<close> submits to \<open>all_drugs\<close>, in the
  order of the loops: the names one result contributes (the \<open>drugs\<close> branch keeps the
  names longer than two characters, the two other branches keep every name), each with
  the confidence and the method of its result.
\<close>

definition admitted_names :: "extraction \<Rightarrow> string list" where
  "admitted_names result =
     (case drugs result of
        Some ds \<Rightarrow> filter (\<lambda>nm. nm \<noteq> [] \<and> length nm > 2) (map item_name ds)
      | None \<Rightarrow>
          (case drug_candidates result of
             Some cs \<Rightarrow> cs
           | None \<Rightarrow>
               (case results result of
                  Some pr \<Rightarrow> (case p_drugs pr of Some ds \<Rightarrow> ds | None \<Rightarrow> [])
                | None \<Rightarrow> [])))"

definition detections_of :: "extraction \<Rightarrow> stored list" where
  "detections_of result =
     map (\<lambda>nm. \<lparr> stored_name = nm,
                 stored_confidence = (case confidence result of Some c \<Rightarrow> c | None \<Rightarrow> 0),
                 stored_method = (case method_name result of Some m \<Rightarrow> m | None \<Rightarrow> ''Unknown'') \<rparr>)
       (admitted_names result)"

definition detections :: "extraction list \<Rightarrow> stored list" where
  "detections rs = concat (map detections_of rs)"

text \<open>The dedup key of a detection, and the store statement on a detection.\<close>

definition dedup_key :: "stored \<Rightarrow> string" where
  "dedup_key d = strip (lower (stored_name d))"

definition store :: "(string \<times> stored) list \<Rightarrow> stored \<Rightarrow> (string \<times> stored) list" where
  "store all_drugs d =
     store_if_better (stored_method d) (stored_confidence d) (stored_name d) all_drugs"

text \<open>
  \<open>best\<close> is the first detection of \<open>ds\<close> with the greatest confidence: every earlier
  one is strictly below it, every later one at most equal.
\<close>

definition first_best :: "stored list \<Rightarrow> stored \<Rightarrow> bool" where
  "first_best ds best \<longleftrightarrow>
     (\<exists>pre post. ds = pre @ best # post \<and>
        (\<forall>d \<in> set pre. stored_confidence d < stored_confidence best) \<and>
        (\<forall>d \<in> set post. stored_confidence d \<le> stored_confidence best))"

text \<open>The invariant of the collecting loops: what \<open>all_drugs\<close> holds after the detections \<open>ds\<close>.\<close>

definition best_stored :: "(string \<times> stored) list \<Rightarrow> stored list \<Rightarrow> bool" where
  "best_stored all_drugs ds \<longleftrightarrow>
     (\<forall>k. case map_of all_drugs k of
             None \<Rightarrow> filter (\<lambda>d. dedup_key d = k) ds = []
           | Some best \<Rightarrow> first_best (filter (\<lambda>d. dedup_key d = k) ds) best)"

text \<open>Extractor results of the three shapes that the fusion reads.\<close>

definition pattern_extraction :: "real \<Rightarrow> string list \<Rightarrow> string list \<Rightarrow> extraction" where
  "pattern_extraction conf names doses =
     \<lparr> method_name = Some ''Pattern Matching'', confidence = Some conf, drugs = None,
       drug_candidates = None,
       results = Some \<lparr> p_drugs = Some names, dosages = Some doses, frequencies = Some [],
                        routes = Some [], durations = Some [] \<rparr> \<rparr>"

definition candidate_extraction :: "real \<Rightarrow> string list \<Rightarrow> extraction" where
  "candidate_extraction conf names =
     \<lparr> method_name = Some ''BioBERT'', confidence = Some conf, drugs = None,
       drug_candidates = Some names, results = None \<rparr>"

definition ner_extraction :: "real \<Rightarrow> drug_item list \<Rightarrow> extraction" where
  "ner_extraction conf items =
     \<lparr> method_name = Some ''Drug NER'', confidence = Some conf, drugs = Some items,
       drug_candidates = None, results = None \<rparr>"


definition distance :: "string \<Rightarrow> int \<Rightarrow> string \<Rightarrow> int" where
  "distance text drug_pos candidate = \<bar>str_find (lower text) (lower candidate) - drug_pos\<bar>"




text \<open>
  For the cascade: the first and the last engine clear their thresholds, no engine
  short-circuits, and the pool of the results retained in that case.
\<close>

definition paddle_short :: "ocr_engines \<Rightarrow> bool" where
  "paddle_short self = (case paddle self of Some r \<Rightarrow> 0.6 < ocr_confidence r | None \<Rightarrow> False)"

definition tesseract_short :: "ocr_engines \<Rightarrow> bool" where
  "tesseract_short self = (case tesseract self of Some r \<Rightarrow> 0.4 < ocr_confidence r | None \<Rightarrow> False)"

definition no_short_circuit :: "ocr_engines \<Rightarrow> bool" where
  "no_short_circuit self \<longleftrightarrow>
     \<not> paddle_short self \<and> watson self = None \<and> \<not> tesseract_short self"

definition pool :: "ocr_engines \<Rightarrow> ocr_result list" where
  "pool self =
     (case paddle self of Some r \<Rightarrow> [r] | None \<Rightarrow> []) @
     (case tesseract self of Some r \<Rightarrow> [r] | None \<Rightarrow> [])"

definition all_engines :: "ocr_engine list" where
  "all_engines = [PaddleOCR, IBMWatson, Tesseract]"

definition scan :: "string \<Rightarrow> real \<Rightarrow> string \<Rightarrow> ocr_result" where
  "scan t c m = \<lparr> ocr_text = t, ocr_confidence = c, ocr_method = m \<rparr>"

text \<open>
  Engines for \<open>extract_drug_info\<close> whose fallback always finds a drug, and services for
  the endpoints whose extractor finds none.
\<close>

definition sample_engines :: ner_engines where
  "sample_engines =
     \<lparr> query_gatortron = (\<lambda>t. Inr \<lparr> has_error = True, g_drugs = None \<rparr>),
       rule_based_extraction =
         (\<lambda>t. [\<lparr> drug_name = ''Aspirin'', di_dosage = [], di_frequency = [], di_route = [] \<rparr>]) \<rparr>"

text \<open>
  \<open>str(e)\<close> on an \<open>HTTPException\<close> as the web framework prints it: the three digits of
  the status code, a colon, the detail.
\<close>

definition digit :: "nat \<Rightarrow> char" where
  "digit n = ''0123456789'' ! (n mod 10)"

definition status_and_detail :: "nat \<Rightarrow> string \<Rightarrow> string" where
  "status_and_detail code detail =
     [digit (code div 100), digit (code div 10), digit code] @ '': '' @ detail"

definition sample_services :: services where
  "sample_services =
     \<lparr> extract_drugs = (\<lambda>t. Inr []),
       dataset_loader = sample_loader,
       http_str = status_and_detail,
       now = ''2024-03-20T10:00:00'' \<rparr>"


section \<open>Evaluation of the string operations\<close>

lemmas str_eval = lower_def upper_def lower_char_def upper_char_def ascii_uppercase_def
  ascii_lowercase_def latin1_uppercase_def latin1_lowercase_def uppercase_letters_def
  lowercase_letters_def points_def strip_def isspace_def

lemmas str_eval_find = str_eval str_find_def

lemmas fusion_eval = collect_result_def store_if_better_def pattern_extraction_def
  candidate_extraction_def ner_extraction_def Let_def str_eval

section \<open>Overall risk\<close>

lemma extract_severity_cases:
  "extract_severity t =
     (if high_text t then ''High'' else if medium_text t then ''Medium'' else ''Low'')"
  by (simp add: extract_severity_def high_text_def medium_text_def Let_def)

lemma count_interaction_risks_eq:
  "count_interaction_risks rs (h, m) =
     (h + length (filter (\<lambda>r. interaction r \<noteq> ''None'' \<and> high_text (interaction r)) rs),
      m + length (filter (\<lambda>r. interaction r \<noteq> ''None'' \<and> \<not> high_text (interaction r)
                                \<and> medium_text (interaction r)) rs))"
  by (induction rs arbitrary: h m) (simp_all add: extract_severity_cases Let_def)

lemma count_dosage_risks_eq:
  "count_dosage_risks ds (h, m) =
     (h + length (filter (\<lambda>a. risk_level a = ''High'') ds),
      m + length (filter (\<lambda>a. risk_level a = ''Medium'') ds))"
  by (induction ds arbitrary: h m) simp_all

text \<open>
  C1. For every list of interaction results and every list of dosage-advice entries,
  \<open>_calculate_overall_risk\<close> returns \<open>High\<close> if some interaction text other than the
  sentinel \<open>None\<close> contains \<open>severe\<close> or \<open>major\<close> (case-insensitively) or some dosage
  advice has risk level \<open>High\<close>; otherwise \<open>Medium\<close> if some such interaction text
  contains \<open>moderate\<close> or \<open>warning\<close> or some dosage advice has risk level \<open>Medium\<close>;
  otherwise \<open>Low\<close>. The number of Low or Medium signals beside a High one plays no role.
\<close>

theorem calculate_overall_risk_levels:
  "calculate_overall_risk irs das =
     (if (\<exists>r \<in> set irs. interaction r \<noteq> ''None'' \<and>
            (str_in ''severe'' (lower (interaction r)) \<or> str_in ''major'' (lower (interaction r))))
         \<or> (\<exists>a \<in> set das. risk_level a = ''High'')
      then ''High''
      else if (\<exists>r \<in> set irs. interaction r \<noteq> ''None'' \<and>
            (str_in ''moderate'' (lower (interaction r)) \<or> str_in ''warning'' (lower (interaction r))))
         \<or> (\<exists>a \<in> set das. risk_level a = ''Medium'')
      then ''Medium''
      else ''Low'')"
  unfolding calculate_overall_risk_def count_interaction_risks_eq count_dosage_risks_eq
  by (auto simp: filter_empty_conv high_text_def medium_text_def)

text \<open>
  One severe interaction beside a moderate one, a Low and a Medium dosage advice: High.
  Without the severe interaction: Medium. With neither: Low.
\<close>

theorem calculate_overall_risk_levels_witness:
  "calculate_overall_risk
     [\<lparr> drug = ''aspirin'', drugbank_id = points ''DB00945'',
        interaction = ''with warfarin: Severe: bleeding risk'' \<rparr>,
      \<lparr> drug = ''ibuprofen'', drugbank_id = points ''DB01050'',
        interaction = ''with aspirin: Moderate: reduced effect'' \<rparr>,
      \<lparr> drug = ''metformin'', drugbank_id = points ''DB00331'', interaction = ''None'' \<rparr>]
     [\<lparr> advice_drug = ''aspirin'', current_dosage = ''100mg'', recommended_dosage = ''100mg'',
        advice = ''Standard adult dosage appropriate'', risk_level = ''Low'' \<rparr>,
      \<lparr> advice_drug = ''ibuprofen'', current_dosage = ''1000mg'', recommended_dosage = ''750mg'',
        advice = ''Reduced dosage recommended for elderly patients'', risk_level = ''Medium'' \<rparr>]
     = ''High'' \<and>
   calculate_overall_risk
     [\<lparr> drug = ''ibuprofen'', drugbank_id = points ''DB01050'',
        interaction = ''with aspirin: Moderate: reduced effect'' \<rparr>,
      \<lparr> drug = ''metformin'', drugbank_id = points ''DB00331'', interaction = ''None'' \<rparr>]
     [\<lparr> advice_drug = ''aspirin'', current_dosage = ''100mg'', recommended_dosage = ''100mg'',
        advice = ''Standard adult dosage appropriate'', risk_level = ''Low'' \<rparr>]
     = ''Medium'' \<and>
   calculate_overall_risk
     [\<lparr> drug = ''metformin'', drugbank_id = points ''DB00331'', interaction = ''None'' \<rparr>]
     [\<lparr> advice_drug = ''aspirin'', current_dosage = ''100mg'', recommended_dosage = ''100mg'',
        advice = ''Standard adult dosage appropriate'', risk_level = ''Low'' \<rparr>]
     = ''Low''"
  by (simp add: calculate_overall_risk_levels str_eval)

section \<open>Identity resolution and interaction lookup\<close>

lemma row_matches_commute: "row_matches a b = row_matches b a"
  by (rule ext) (auto simp: row_matches_def)

text \<open>
  C3. For every pair of drug names A and B, \<open>check_drug_interaction(A, B)\<close> returns the
  same string as \<open>check_drug_interaction(B, A)\<close>: the table is queried for both
  orderings of the resolved identifier pair.
\<close>

theorem check_drug_interaction_symmetric:
  "check_drug_interaction self drug1 drug2 = check_drug_interaction self drug2 drug1"
  unfolding check_drug_interaction_def Let_def
  by (subst row_matches_commute) (rule refl)

theorem check_drug_interaction_symmetric_witness:
  "check_drug_interaction sample_loader ''Warfarin'' ''Aspirin'' = ''Severe: bleeding risk'' \<and>
   check_drug_interaction sample_loader ''Aspirin'' ''Warfarin'' = ''Severe: bleeding risk''"
proof -
  have fwd:
    "check_drug_interaction sample_loader ''Warfarin'' ''Aspirin'' = ''Severe: bleeding risk''"
    by (simp add: check_drug_interaction_def get_drugbank_id_def sample_loader_def str_eval
        row_matches_def)
  with check_drug_interaction_symmetric [of sample_loader "''Warfarin''" "''Aspirin''"]
  show ?thesis by simp
qed

lemma fuzzy_match_first:
  "items = pre @ (k, v) # post \<Longrightarrow> \<forall>p \<in> set pre. \<not> fuzzy key (fst p) \<Longrightarrow> fuzzy key k
   \<Longrightarrow> fuzzy_match key items = Some v"
  by (induction pre arbitrary: items) (auto simp: fuzzy_def)

lemma fuzzy_match_none:
  "\<forall>p \<in> set items. \<not> fuzzy key (fst p) \<Longrightarrow> fuzzy_match key items = None"
  by (induction items) (auto simp: fuzzy_def)

text \<open>
  C4. \<open>get_drugbank_id\<close> is a total function of the name and follows this order. The
  name is normalised by lower-casing and trimming. If the normalised name is a key of
  the mapping table, its entry is returned. Otherwise the identifier of the first
  mapped name, in table iteration order, such that the normalised input is a substring
  of the mapped name or the mapped name is a substring of the normalised input.
  Otherwise the sentinel \<open>DB_UNKNOWN_\<close> followed by the upper-cased name: the unmapped
  name \<open>Xyzzyblorp\<close> gives \<open>DB_UNKNOWN_XYZZYBLORP\<close>. The returned \<open>str\<close> is given by
  its code points, \<open>points v\<close> for a table entry \<open>v\<close>.
\<close>

theorem get_drugbank_id_order:
  "(\<forall>v. map_of (drug_mapping self) (strip (lower nm)) = Some v
        \<longrightarrow> get_drugbank_id self nm = points v) \<and>
   (\<forall>pre k v post.
        strip (lower nm) \<notin> fst ` set (drug_mapping self) \<and>
        drug_mapping self = pre @ (k, v) # post \<and>
        (\<forall>p \<in> set pre. \<not> fuzzy (strip (lower nm)) (fst p)) \<and>
        fuzzy (strip (lower nm)) k
        \<longrightarrow> get_drugbank_id self nm = points v) \<and>
   (strip (lower nm) \<notin> fst ` set (drug_mapping self) \<and>
    (\<forall>p \<in> set (drug_mapping self). \<not> fuzzy (strip (lower nm)) (fst p))
        \<longrightarrow> get_drugbank_id self nm = points ''DB_UNKNOWN_'' @ upper nm)"
proof (intro conjI allI impI)
  fix v assume "map_of (drug_mapping self) (strip (lower nm)) = Some v"
  then show "get_drugbank_id self nm = points v"
    by (simp add: get_drugbank_id_def)
next
  fix pre k v post
  assume h: "strip (lower nm) \<notin> fst ` set (drug_mapping self) \<and>
        drug_mapping self = pre @ (k, v) # post \<and>
        (\<forall>p \<in> set pre. \<not> fuzzy (strip (lower nm)) (fst p)) \<and>
        fuzzy (strip (lower nm)) k"
  then have "map_of (drug_mapping self) (strip (lower nm)) = None"
    unfolding map_of_eq_None_iff by blast
  moreover have "fuzzy_match (strip (lower nm)) (drug_mapping self) = Some v"
    using h fuzzy_match_first by blast
  ultimately show "get_drugbank_id self nm = points v"
    by (simp add: get_drugbank_id_def)
next
  assume h: "strip (lower nm) \<notin> fst ` set (drug_mapping self) \<and>
    (\<forall>p \<in> set (drug_mapping self). \<not> fuzzy (strip (lower nm)) (fst p))"
  then have "map_of (drug_mapping self) (strip (lower nm)) = None"
    unfolding map_of_eq_None_iff by blast
  moreover have "fuzzy_match (strip (lower nm)) (drug_mapping self) = None"
    using h fuzzy_match_none by blast
  ultimately show "get_drugbank_id self nm = points ''DB_UNKNOWN_'' @ upper nm"
    by (simp add: get_drugbank_id_def)
qed

text \<open>
  An exact hit after normalisation, a fuzzy hit on the second mapped name, and the
  sentinel; then the same with letters beyond ASCII: the upper-case name with 0xC8 hits
  the key with 0xE8, and the sentinel of the unmapped name with 0xE9 ends in 0xC9.
\<close>

theorem get_drugbank_id_order_witness:
  "get_drugbank_id sample_loader '' Aspirin '' = points ''DB00945'' \<and>
   get_drugbank_id sample_loader ''Warfarin sodium'' = points ''DB00682'' \<and>
   get_drugbank_id sample_loader ''Xyzzyblorp'' = points ''DB_UNKNOWN_XYZZYBLORP'' \<and>
   get_drugbank_id creme_loader creme_upper = points ''DB00001'' \<and>
   get_drugbank_id sample_loader cafe_lower = points (''DB_UNKNOWN_'' @ cafe_upper)"
proof (intro conjI)
  have "map_of (drug_mapping sample_loader) (strip (lower '' Aspirin '')) = Some ''DB00945''"
    by (simp add: sample_loader_def str_eval)
  with get_drugbank_id_order [of sample_loader "'' Aspirin ''"]
  show "get_drugbank_id sample_loader '' Aspirin '' = points ''DB00945''"
    by blast
next
  have "strip (lower ''Warfarin sodium'') \<notin> fst ` set (drug_mapping sample_loader) \<and>
        drug_mapping sample_loader =
          [(''aspirin'', ''DB00945'')] @ (''warfarin'', ''DB00682'') # [] \<and>
        (\<forall>p \<in> set [(''aspirin'', ''DB00945'')].
           \<not> fuzzy (strip (lower ''Warfarin sodium'')) (fst p)) \<and>
        fuzzy (strip (lower ''Warfarin sodium'')) ''warfarin''"
    by (simp add: sample_loader_def str_eval fuzzy_def)
  with get_drugbank_id_order [of sample_loader "''Warfarin sodium''"]
  show "get_drugbank_id sample_loader ''Warfarin sodium'' = points ''DB00682''"
    by blast
next
  have "strip (lower ''Xyzzyblorp'') \<notin> fst ` set (drug_mapping sample_loader) \<and>
    (\<forall>p \<in> set (drug_mapping sample_loader). \<not> fuzzy (strip (lower ''Xyzzyblorp'')) (fst p))"
    by (simp add: sample_loader_def str_eval fuzzy_def)
  with get_drugbank_id_order [of sample_loader "''Xyzzyblorp''"]
  have "get_drugbank_id sample_loader ''Xyzzyblorp'' =
          points ''DB_UNKNOWN_'' @ upper ''Xyzzyblorp''"
    by blast
  then show "get_drugbank_id sample_loader ''Xyzzyblorp'' = points ''DB_UNKNOWN_XYZZYBLORP''"
    by (simp add: str_eval)
next
  have "map_of (drug_mapping creme_loader) (strip (lower creme_upper)) = Some ''DB00001''"
    by (simp add: creme_loader_def creme_upper_def creme_lower_def str_eval)
  with get_drugbank_id_order [of creme_loader creme_upper]
  show "get_drugbank_id creme_loader creme_upper = points ''DB00001''"
    by blast
next
  have "strip (lower cafe_lower) \<notin> fst ` set (drug_mapping sample_loader) \<and>
    (\<forall>p \<in> set (drug_mapping sample_loader). \<not> fuzzy (strip (lower cafe_lower)) (fst p))"
    by (simp add: sample_loader_def cafe_lower_def str_eval fuzzy_def)
  with get_drugbank_id_order [of sample_loader cafe_lower]
  have "get_drugbank_id sample_loader cafe_lower = points ''DB_UNKNOWN_'' @ upper cafe_lower"
    by blast
  then show "get_drugbank_id sample_loader cafe_lower = points (''DB_UNKNOWN_'' @ cafe_upper)"
    by (simp add: cafe_lower_def cafe_upper_def str_eval)
qed

text \<open>
  The upper case that leaves the strings of the model: the sharp s 0xDF becomes \<open>SS\<close>,
  the micro sign 0xB5 the code point 0x39C and the y with diaeresis 0xFF the code
  point 0x178.
\<close>

lemma upper_beyond_model:
  "upper [CHR 0xDF] = points ''SS'' \<and> upper [CHR 0xB5] = [0x39C] \<and> upper [CHR 0xFF] = [0x178]"
  by (simp add: str_eval)

lemma drug_of_drug_result: "drug (drug_result self ds p) = strip (snd p)"
  by (simp add: drug_result_def Let_def)

lemma get_interaction_drugs: "map drug (get_interaction self ds) = map strip ds"
proof -
  have "map drug (get_interaction self ds) = map (\<lambda>p. strip (snd p)) (enumerate 0 ds)"
    by (simp add: get_interaction_def drug_of_drug_result)
  also have "\<dots> = map strip (map snd (enumerate 0 ds))"
    by (simp only: map_map comp_def)
  also have "\<dots> = map strip ds"
    by (simp only: map_snd_enumerate)
  finally show ?thesis .
qed

text \<open>
  C5, as the code has it. When the interaction table is empty, every pairwise lookup
  returns the literal string \<open>Dataset not available\<close>, not \<open>None\<close>; nothing fails,
  and \<open>get_interaction\<close> still returns one result for every drug of the list.
\<close>

theorem empty_table_lookup:
  "hoddi_data self = [] \<Longrightarrow>
     check_drug_interaction self drug1 drug2 = ''Dataset not available'' \<and>
     map drug (get_interaction self ds) = map strip ds"
  by (simp add: check_drug_interaction_def get_interaction_drugs)

theorem empty_table_lookup_witness:
  "hoddi_data empty_loader = [] \<and>
   check_drug_interaction empty_loader ''Warfarin'' ''Aspirin'' = ''Dataset not available'' \<and>
   map drug (get_interaction empty_loader ['' aspirin'', ''warfarin'']) =
     [''aspirin'', ''warfarin'']"
proof -
  have h: "hoddi_data empty_loader = []"
    by (simp add: empty_loader_def)
  from empty_table_lookup [OF h, of "''Warfarin''" "''Aspirin''" "['' aspirin'', ''warfarin'']"] h
  show ?thesis
    by (simp add: str_eval)
qed

text \<open>
  C5, as the claim states it, fails on the empty tables: the lookup for aspirin and
  warfarin is not \<open>None\<close>, and the per-drug results of the two report an interaction.
\<close>

theorem empty_table_counterexample:
  "check_drug_interaction empty_loader ''aspirin'' ''warfarin'' = ''Dataset not available'' \<and>
   map interaction (get_interaction empty_loader [''aspirin'', ''warfarin'']) =
     [''with warfarin: Dataset not available'', ''with aspirin: Dataset not available'']"
  by (simp add: check_drug_interaction_def get_interaction_def drug_result_def empty_loader_def
      enumerate_eq_zip)

section \<open>Fusion of the detections\<close>

lemma map_of_dict_set: "map_of (dict_set k v items) = (map_of items)(k \<mapsto> v)"
  by (induction items) auto

lemma keys_dict_set: "fst ` set (dict_set k v items) = insert k (fst ` set items)"
  by (simp add: map_of_dict_set flip: dom_map_of_conv_image_fst)

lemma distinct_dict_set: "distinct (map fst items) \<Longrightarrow> distinct (map fst (dict_set k v items))"
  by (induction items) (auto simp: keys_dict_set)

lemma stored_eta:
  "\<lparr> stored_name = stored_name d, stored_confidence = stored_confidence d,
     stored_method = stored_method d \<rparr> = d"
  by simp

lemma store_cases:
  "store all_drugs d =
     (case map_of all_drugs (dedup_key d) of
        None \<Rightarrow> dict_set (dedup_key d) d all_drugs
      | Some old \<Rightarrow>
          if stored_confidence old < stored_confidence d
          then dict_set (dedup_key d) d all_drugs else all_drugs)"
  by (simp add: store_def store_if_better_def dedup_key_def Let_def stored_eta split: option.split)

lemma distinct_store: "distinct (map fst all_drugs) \<Longrightarrow> distinct (map fst (store all_drugs d))"
  by (simp add: store_cases distinct_dict_set split: option.split)

lemma collect_names_foldl:
  "collect_names mth conf ns all_drugs =
     foldl store all_drugs
       (map (\<lambda>nm. \<lparr> stored_name = nm, stored_confidence = conf, stored_method = mth \<rparr>) ns)"
  by (induction ns arbitrary: all_drugs) (simp_all add: store_def)

lemma collect_drugs_foldl:
  "collect_drugs mth conf ds all_drugs =
     foldl store all_drugs
       (map (\<lambda>nm. \<lparr> stored_name = nm, stored_confidence = conf, stored_method = mth \<rparr>)
          (filter (\<lambda>nm. nm \<noteq> [] \<and> length nm > 2) (map item_name ds)))"
  by (induction ds arbitrary: all_drugs) (simp_all add: store_def Let_def)

lemma collect_result_foldl:
  "collect_result result all_drugs = foldl store all_drugs (detections_of result)"
  by (simp add: collect_result_def detections_of_def admitted_names_def Let_def
      collect_names_foldl collect_drugs_foldl split: option.split)

lemma collect_all_foldl:
  "collect_all rs all_drugs = foldl store all_drugs (detections rs)"
  by (induction rs arbitrary: all_drugs) (simp_all add: detections_def collect_result_foldl)

lemma first_best_single: "first_best [d] d"
  unfolding first_best_def by (rule exI [of _ "[]"], rule exI [of _ "[]"]) simp

lemma first_best_keep:
  assumes "first_best ds best" and "\<not> stored_confidence best < stored_confidence d"
  shows "first_best (ds @ [d]) best"
proof -
  from assms(1) obtain pre post where
    ds: "ds = pre @ best # post" and
    pre: "\<forall>x \<in> set pre. stored_confidence x < stored_confidence best" and
    post: "\<forall>x \<in> set post. stored_confidence x \<le> stored_confidence best"
    unfolding first_best_def by blast
  have "ds @ [d] = pre @ best # (post @ [d])"
    using ds by simp
  moreover have "\<forall>x \<in> set (post @ [d]). stored_confidence x \<le> stored_confidence best"
    using post assms(2) by auto
  ultimately show ?thesis
    unfolding first_best_def using pre by blast
qed

lemma first_best_replace:
  assumes "first_best ds best" and "stored_confidence best < stored_confidence d"
  shows "first_best (ds @ [d]) d"
proof -
  from assms(1) obtain pre post where
    ds: "ds = pre @ best # post" and
    pre: "\<forall>x \<in> set pre. stored_confidence x < stored_confidence best" and
    post: "\<forall>x \<in> set post. stored_confidence x \<le> stored_confidence best"
    unfolding first_best_def by blast
  have "\<forall>x \<in> set ds. stored_confidence x < stored_confidence d"
    using ds pre post assms(2) by fastforce
  moreover have "ds @ [d] = ds @ d # []"
    by simp
  ultimately show ?thesis
    unfolding first_best_def by (metis empty_iff empty_set)
qed

lemma best_stored_step:
  assumes "best_stored all_drugs ds"
  shows "best_stored (store all_drugs d) (ds @ [d])"
  unfolding best_stored_def
proof
  fix k
  let ?own = "filter (\<lambda>x. dedup_key x = k) ds"
  from assms have inv:
    "case map_of all_drugs k of None \<Rightarrow> ?own = [] | Some best \<Rightarrow> first_best ?own best"
    unfolding best_stored_def by blast
  show "case map_of (store all_drugs d) k of
          None \<Rightarrow> filter (\<lambda>x. dedup_key x = k) (ds @ [d]) = []
        | Some best \<Rightarrow> first_best (filter (\<lambda>x. dedup_key x = k) (ds @ [d])) best"
  proof (cases "dedup_key d = k")
    case False
    then have same: "map_of (store all_drugs d) k = map_of all_drugs k"
      by (simp add: store_cases map_of_dict_set split: option.split)
    from False have "filter (\<lambda>x. dedup_key x = k) (ds @ [d]) = ?own"
      by simp
    with inv same show ?thesis
      by (simp only:)
  next
    case True
    show ?thesis
    proof (cases "map_of all_drugs k")
      case None
      with inv True show ?thesis
        by (simp add: store_cases map_of_dict_set first_best_single)
    next
      case (Some old)
      with inv have old: "first_best ?own old" by simp
      show ?thesis
      proof (cases "stored_confidence old < stored_confidence d")
        case better: True
        with Some True first_best_replace [OF old better] show ?thesis
          by (simp add: store_cases map_of_dict_set)
      next
        case worse: False
        with Some True first_best_keep [OF old worse] show ?thesis
          by (simp add: store_cases)
      qed
    qed
  qed
qed

lemma best_stored_foldl:
  "best_stored all_drugs ds \<Longrightarrow> best_stored (foldl store all_drugs es) (ds @ es)"
proof (induction es arbitrary: all_drugs ds)
  case Nil
  then show ?case by simp
next
  case (Cons e es)
  from Cons.IH [OF best_stored_step [OF Cons.prems, of e]] show ?case by simp
qed

lemma best_stored_collect_all: "best_stored (collect_all rs []) (detections rs)"
  using best_stored_foldl [of "[]" "[]" "detections rs"]
  by (simp add: collect_all_foldl best_stored_def)

lemma distinct_foldl_store:
  "distinct (map fst all_drugs) \<Longrightarrow> distinct (map fst (foldl store all_drugs es))"
  by (induction es arbitrary: all_drugs) (simp_all add: distinct_store)

lemma entity_of_stored:
  "entity_name (make_entity pd text d) = stored_name d \<and>
   entity_confidence (make_entity pd text d) = stored_confidence d"
  by (simp add: make_entity_def)

text \<open>
  C2. For every collection of extraction results and every dedup key (the lower-cased,
  trimmed name): a stored detection is replaced by a later one with the same key only
  if the later confidence is strictly greater, and on equal confidence the earlier one
  is kept. So the entry stored for a key is the first of the detections with that key
  that has the greatest confidence, every key has one entry, and every entry is emitted
  as one entity with the name and the confidence of that detection.
\<close>

theorem fused_confidence_is_first_maximum:
  "(case map_of (collect_all rs []) k of
      None \<Rightarrow> filter (\<lambda>d. dedup_key d = k) (detections rs) = []
    | Some best \<Rightarrow>
        (\<exists>pre post.
           filter (\<lambda>d. dedup_key d = k) (detections rs) = pre @ best # post \<and>
           (\<forall>d \<in> set pre. stored_confidence d < stored_confidence best) \<and>
           (\<forall>d \<in> set post. stored_confidence d \<le> stored_confidence best))) \<and>
   distinct (map fst (collect_all rs [])) \<and>
   map (\<lambda>e. (entity_name e, entity_confidence e)) (combine_drug_extractions rs raw) =
     map (\<lambda>p. (stored_name (snd p), stored_confidence (snd p))) (collect_all rs [])"
proof (intro conjI)
  from best_stored_collect_all [of rs]
  show "case map_of (collect_all rs []) k of
      None \<Rightarrow> filter (\<lambda>d. dedup_key d = k) (detections rs) = []
    | Some best \<Rightarrow>
        (\<exists>pre post.
           filter (\<lambda>d. dedup_key d = k) (detections rs) = pre @ best # post \<and>
           (\<forall>d \<in> set pre. stored_confidence d < stored_confidence best) \<and>
           (\<forall>d \<in> set post. stored_confidence d \<le> stored_confidence best))"
    unfolding best_stored_def first_best_def by blast
next
  show "distinct (map fst (collect_all rs []))"
    by (simp add: collect_all_foldl distinct_foldl_store)
next
  show "map (\<lambda>e. (entity_name e, entity_confidence e)) (combine_drug_extractions rs raw) =
     map (\<lambda>p. (stored_name (snd p), stored_confidence (snd p))) (collect_all rs [])"
    by (simp add: combine_drug_extractions_def Let_def entity_of_stored comp_def)
qed

text \<open>
  Two detections of the key \<open>aspirin\<close>: with confidences 0.6 and 0.6 the first one
  wins, with 0.5 and 0.9 the second one.
\<close>

theorem fused_confidence_is_first_maximum_witness:
  "map (\<lambda>e. (entity_name e, entity_confidence e))
     (combine_drug_extractions
        [candidate_extraction 0.6 [''Aspirin''], pattern_extraction 0.6 [''aspirin''] []]
        ''Aspirin 100mg'') = [(''Aspirin'', 0.6)] \<and>
   map (\<lambda>e. (entity_name e, entity_confidence e))
     (combine_drug_extractions
        [candidate_extraction 0.5 [''Aspirin''], pattern_extraction 0.9 [''aspirin''] []]
        ''Aspirin 100mg'') = [(''aspirin'', 0.9)] \<and>
   map_of
     (collect_all
        [candidate_extraction 0.6 [''Aspirin''], pattern_extraction 0.6 [''aspirin''] []] [])
     ''aspirin'' =
     Some \<lparr> stored_name = ''Aspirin'', stored_confidence = 0.6, stored_method = ''BioBERT'' \<rparr> \<and>
   map_of
     (collect_all
        [candidate_extraction 0.5 [''Aspirin''], pattern_extraction 0.9 [''aspirin''] []] [])
     ''aspirin'' =
     Some \<lparr> stored_name = ''aspirin'', stored_confidence = 0.9,
            stored_method = ''Pattern Matching'' \<rparr>"
  using
    fused_confidence_is_first_maximum [where
      rs = "[candidate_extraction 0.6 [''Aspirin''], pattern_extraction 0.6 [''aspirin''] []]"
      and k = "''aspirin''" and raw = "''Aspirin 100mg''"]
    fused_confidence_is_first_maximum [where
      rs = "[candidate_extraction 0.5 [''Aspirin''], pattern_extraction 0.9 [''aspirin''] []]"
      and k = "''aspirin''" and raw = "''Aspirin 100mg''"]
  by (simp add: fusion_eval)

text \<open>
  Letters beyond ASCII fold to one key: the upper-case and the lower-case spelling of
  the name with 0xC9 and 0xE9 are one detection key, and the first spelling is kept.
\<close>

lemma fusion_folds_latin1:
  "map entity_name
     (combine_drug_extractions [candidate_extraction 0.7 [cafe_upper, cafe_lower]] [])
     = [cafe_upper]"
  by (simp add: combine_drug_extractions_def make_entity_def cafe_upper_def cafe_lower_def
      fusion_eval)

text \<open>
  C7 on the code. A two-letter name from the pattern branch (\<open>to\<close>, which the second
  drug pattern captures in \<open>Take to 5 mg\<close>) and one from the \<open>drug_candidates\<close> branch
  are fused into entities; the same name from the \<open>drugs\<close> branch is discarded.
\<close>

theorem short_names_are_fused:
  "map entity_name
     (combine_drug_extractions [pattern_extraction 0.6 [''to''] [''5 mg'', ''5 mg'']] ''Take to 5 mg'')
     = [''to''] \<and>
   map entity_name (combine_drug_extractions [candidate_extraction 0.7 [''ab'']] ''ab 5 mg'')
     = [''ab''] \<and>
   combine_drug_extractions [ner_extraction 0.85 [DrugDict (Some ''to'') None]] ''Take to 5 mg''
     = []"
  by (simp add: combine_drug_extractions_def make_entity_def fusion_eval)

text \<open>The \<open>drugs\<close> branch submits only names longer than two characters.\<close>

lemma drugs_branch_discards_short:
  "drugs result = Some ds \<Longrightarrow> \<forall>d \<in> set (detections_of result). 2 < length (stored_name d)"
  by (auto simp: detections_of_def admitted_names_def)

section \<open>Attribute binding\<close>







text \<open>
  The mention is found whatever its case, also beyond ASCII: in \<open>mg CAFE zz\<close> with
  the upper-case 0xC9 the lower-case name with 0xE9 stands at index 3, and \<open>mg\<close> at
  distance 3 is nearer than \<open>zz\<close> at distance 5.
\<close>

lemma find_closest_match_latin1:
  "find_closest_match cafe_lower [''zz'', ''mg''] (''mg '' @ cafe_upper @ '' zz'') = ''mg''"
  by (simp add: find_closest_match_def cafe_upper_def cafe_lower_def str_eval_find)


section \<open>The acquisition cascade\<close>

lemma max_from_maximal:
  "max_from best xs \<in> set (best # xs) \<and>
   (\<forall>x \<in> set (best # xs). ocr_confidence x \<le> ocr_confidence (max_from best xs))"
proof (induction xs arbitrary: best)
  case Nil
  show ?case by simp
next
  case (Cons x xs)
  show ?case
  proof (cases "ocr_confidence best < ocr_confidence x")
    case True
    with Cons.IH [of x] show ?thesis by force
  next
    case False
    with Cons.IH [of best] show ?thesis by force
  qed
qed

lemma best_available_max:
  "ocr_results \<noteq> [] \<Longrightarrow>
     \<exists>best. best_available ocr_results = (Inr best, all_engines) \<and> best \<in> set ocr_results \<and>
       (\<forall>x \<in> set ocr_results. ocr_confidence x \<le> ocr_confidence best)"
  using max_from_maximal
  by (cases ocr_results) (simp_all add: best_available_def all_engines_def)

lemma no_short_circuit_cascade:
  "no_short_circuit self \<Longrightarrow> ocr_cascade self = best_available (pool self)"
  by (auto simp: no_short_circuit_def paddle_short_def tesseract_short_def pool_def
      ocr_cascade_def ocr_fallbacks_def split: option.splits)

lemma extract_text_from_image_cascade:
  "extract_text_from_image self None =
     (case ocr_cascade self of
        (Inl e, calls) \<Rightarrow> (Inl (RuntimeError (''OCR extraction failed: '' @ str_exn e)), calls)
      | (Inr r, calls) \<Rightarrow> (Inr r, calls))"
  by (simp add: extract_text_from_image_def)

text \<open>
  C6. \<open>extract_text_from_image\<close>, on an image that opens and preprocesses without an
  exception, tries the engines in the fixed order PaddleOCR, IBM Watson, Tesseract. A
  PaddleOCR result with confidence above 0.6 is returned at once and no other engine is
  invoked; failing that, any IBM Watson result is returned at once; failing that, a
  Tesseract result with confidence above 0.4 is returned. If no engine short-circuits,
  the result of greatest confidence in the retained pool is returned, and if the pool
  is empty the call fails with a \<open>RuntimeError\<close>.
\<close>

theorem ocr_cascade_order:
  "(\<forall>r. paddle self = Some r \<and> 0.6 < ocr_confidence r
        \<longrightarrow> extract_text_from_image self None = (Inr r, [PaddleOCR])) \<and>
   (\<forall>w. \<not> paddle_short self \<and> watson self = Some w
        \<longrightarrow> extract_text_from_image self None = (Inr w, [PaddleOCR, IBMWatson])) \<and>
   (\<forall>t. \<not> paddle_short self \<and> watson self = None \<and> tesseract self = Some t \<and>
        0.4 < ocr_confidence t
        \<longrightarrow> extract_text_from_image self None = (Inr t, [PaddleOCR, IBMWatson, Tesseract])) \<and>
   (no_short_circuit self \<and> pool self \<noteq> []
        \<longrightarrow> (\<exists>best. extract_text_from_image self None =
                        (Inr best, [PaddleOCR, IBMWatson, Tesseract]) \<and>
               best \<in> set (pool self) \<and>
               (\<forall>x \<in> set (pool self). ocr_confidence x \<le> ocr_confidence best))) \<and>
   (no_short_circuit self \<and> pool self = []
        \<longrightarrow> extract_text_from_image self None =
              (Inl (RuntimeError
                 ''OCR extraction failed: Failed to extract text using all available OCR methods''),
               [PaddleOCR, IBMWatson, Tesseract]))"
proof (intro conjI allI impI)
  fix r assume "paddle self = Some r \<and> 0.6 < ocr_confidence r"
  then have "ocr_cascade self = (Inr r, [PaddleOCR])"
    by (simp add: ocr_cascade_def)
  then show "extract_text_from_image self None = (Inr r, [PaddleOCR])"
    by (simp add: extract_text_from_image_cascade)
next
  fix w assume "\<not> paddle_short self \<and> watson self = Some w"
  then have "ocr_cascade self = (Inr w, [PaddleOCR, IBMWatson])"
    by (auto simp: paddle_short_def ocr_cascade_def ocr_fallbacks_def split: option.splits)
  then show "extract_text_from_image self None = (Inr w, [PaddleOCR, IBMWatson])"
    by (simp add: extract_text_from_image_cascade)
next
  fix t assume "\<not> paddle_short self \<and> watson self = None \<and> tesseract self = Some t \<and>
        0.4 < ocr_confidence t"
  then have "ocr_cascade self = (Inr t, [PaddleOCR, IBMWatson, Tesseract])"
    by (auto simp: paddle_short_def ocr_cascade_def ocr_fallbacks_def split: option.splits)
  then show "extract_text_from_image self None = (Inr t, [PaddleOCR, IBMWatson, Tesseract])"
    by (simp add: extract_text_from_image_cascade)
next
  assume h: "no_short_circuit self \<and> pool self \<noteq> []"
  with best_available_max [of "pool self"] no_short_circuit_cascade [of self]
  obtain best where
    "ocr_cascade self = (Inr best, [PaddleOCR, IBMWatson, Tesseract])" and
    "best \<in> set (pool self)" and
    "\<forall>x \<in> set (pool self). ocr_confidence x \<le> ocr_confidence best"
    by (auto simp: all_engines_def)
  then show "\<exists>best. extract_text_from_image self None =
                        (Inr best, [PaddleOCR, IBMWatson, Tesseract]) \<and>
               best \<in> set (pool self) \<and>
               (\<forall>x \<in> set (pool self). ocr_confidence x \<le> ocr_confidence best)"
    by (auto simp: extract_text_from_image_cascade)
next
  assume h: "no_short_circuit self \<and> pool self = []"
  with no_short_circuit_cascade [of self]
  show "extract_text_from_image self None =
              (Inl (RuntimeError
                 ''OCR extraction failed: Failed to extract text using all available OCR methods''),
               [PaddleOCR, IBMWatson, Tesseract])"
    by (simp add: extract_text_from_image_def best_available_def)
qed

text \<open>
  A first engine at 0.9 is returned and is the only engine invoked. A first engine at
  0.3 followed by a last engine at 0.5 gives the 0.5 result (0.5 is above 0.4). A first
  engine at 0.5 and a last engine at 0.3 are both retained, and the 0.5 result is the
  best of the pool. With no result at all the call fails.
\<close>

theorem ocr_cascade_order_witness:
  "extract_text_from_image \<lparr> paddle = Some (scan ''Amoxicillin 500mg'' 0.9 ''PaddleOCR''),
                 watson = Some (scan ''Amoxicillin'' 0.8 ''IBM Watson''),
                 tesseract = Some (scan ''Amoxicilin'' 0.7 ''Tesseract'') \<rparr> None
     = (Inr (scan ''Amoxicillin 500mg'' 0.9 ''PaddleOCR''), [PaddleOCR]) \<and>
   extract_text_from_image \<lparr> paddle = Some (scan ''Amox'' 0.3 ''PaddleOCR''),
                 watson = Some (scan ''Amoxicillin'' 0.8 ''IBM Watson''),
                 tesseract = None \<rparr> None
     = (Inr (scan ''Amoxicillin'' 0.8 ''IBM Watson''), [PaddleOCR, IBMWatson]) \<and>
   extract_text_from_image \<lparr> paddle = Some (scan ''Amox'' 0.3 ''PaddleOCR''),
                 watson = None,
                 tesseract = Some (scan ''Amoxicilin'' 0.5 ''Tesseract'') \<rparr> None
     = (Inr (scan ''Amoxicilin'' 0.5 ''Tesseract''), [PaddleOCR, IBMWatson, Tesseract]) \<and>
   extract_text_from_image \<lparr> paddle = Some (scan ''Amox'' 0.5 ''PaddleOCR''),
                 watson = None,
                 tesseract = Some (scan ''Amoxicilin'' 0.3 ''Tesseract'') \<rparr> None
     = (Inr (scan ''Amox'' 0.5 ''PaddleOCR''), [PaddleOCR, IBMWatson, Tesseract]) \<and>
   extract_text_from_image \<lparr> paddle = None, watson = None, tesseract = None \<rparr> None
     = (Inl (RuntimeError
          ''OCR extraction failed: Failed to extract text using all available OCR methods''),
        [PaddleOCR, IBMWatson, Tesseract])"
proof (intro conjI)
  let ?e1 = "\<lparr> paddle = Some (scan ''Amoxicillin 500mg'' 0.9 ''PaddleOCR''),
                 watson = Some (scan ''Amoxicillin'' 0.8 ''IBM Watson''),
                 tesseract = Some (scan ''Amoxicilin'' 0.7 ''Tesseract'') \<rparr>"
  have "paddle ?e1 = Some (scan ''Amoxicillin 500mg'' 0.9 ''PaddleOCR'') \<and>
        0.6 < ocr_confidence (scan ''Amoxicillin 500mg'' 0.9 ''PaddleOCR'')"
    by (simp add: scan_def)
  with ocr_cascade_order [of ?e1]
  show "extract_text_from_image ?e1 None = (Inr (scan ''Amoxicillin 500mg'' 0.9 ''PaddleOCR''), [PaddleOCR])"
    by blast
next
  let ?e2 = "\<lparr> paddle = Some (scan ''Amox'' 0.3 ''PaddleOCR''),
                 watson = Some (scan ''Amoxicillin'' 0.8 ''IBM Watson''),
                 tesseract = None \<rparr>"
  have "\<not> paddle_short ?e2 \<and> watson ?e2 = Some (scan ''Amoxicillin'' 0.8 ''IBM Watson'')"
    by (simp add: scan_def paddle_short_def)
  with ocr_cascade_order [of ?e2]
  show "extract_text_from_image ?e2 None = (Inr (scan ''Amoxicillin'' 0.8 ''IBM Watson''), [PaddleOCR, IBMWatson])"
    by blast
next
  let ?e3 = "\<lparr> paddle = Some (scan ''Amox'' 0.3 ''PaddleOCR''),
                 watson = None,
                 tesseract = Some (scan ''Amoxicilin'' 0.5 ''Tesseract'') \<rparr>"
  have "\<not> paddle_short ?e3 \<and> watson ?e3 = None \<and>
        tesseract ?e3 = Some (scan ''Amoxicilin'' 0.5 ''Tesseract'') \<and>
        0.4 < ocr_confidence (scan ''Amoxicilin'' 0.5 ''Tesseract'')"
    by (simp add: scan_def paddle_short_def)
  with ocr_cascade_order [of ?e3]
  show "extract_text_from_image ?e3 None =
          (Inr (scan ''Amoxicilin'' 0.5 ''Tesseract''), [PaddleOCR, IBMWatson, Tesseract])"
    by blast
next
  let ?e4 = "\<lparr> paddle = Some (scan ''Amox'' 0.5 ''PaddleOCR''),
                 watson = None,
                 tesseract = Some (scan ''Amoxicilin'' 0.3 ''Tesseract'') \<rparr>"
  have pool4: "pool ?e4 = [scan ''Amox'' 0.5 ''PaddleOCR'', scan ''Amoxicilin'' 0.3 ''Tesseract'']"
    by (simp add: pool_def)
  have "no_short_circuit ?e4 \<and> pool ?e4 \<noteq> []"
    by (simp add: scan_def no_short_circuit_def paddle_short_def tesseract_short_def pool_def)
  with ocr_cascade_order [of ?e4] obtain best where
    res: "extract_text_from_image ?e4 None = (Inr best, [PaddleOCR, IBMWatson, Tesseract])" and
    mem: "best \<in> set (pool ?e4)" and
    top: "\<forall>x \<in> set (pool ?e4). ocr_confidence x \<le> ocr_confidence best"
    by blast
  from mem top have "best = scan ''Amox'' 0.5 ''PaddleOCR''"
    unfolding pool4 by (auto simp: scan_def)
  with res show "extract_text_from_image ?e4 None =
      (Inr (scan ''Amox'' 0.5 ''PaddleOCR''), [PaddleOCR, IBMWatson, Tesseract])"
    by simp
next
  let ?e5 = "\<lparr> paddle = None, watson = None, tesseract = None \<rparr>"
  have "no_short_circuit ?e5 \<and> pool ?e5 = []"
    by (simp add: no_short_circuit_def paddle_short_def tesseract_short_def pool_def)
  with ocr_cascade_order [of ?e5]
  show "extract_text_from_image ?e5 None
     = (Inl (RuntimeError
          ''OCR extraction failed: Failed to extract text using all available OCR methods''),
        [PaddleOCR, IBMWatson, Tesseract])"
    by blast
qed

section \<open>The extraction entry point\<close>

lemma strip_blank:
  assumes "\<forall>c \<in> set s. isspace c"
  shows "strip s = []"
proof -
  from assms have "dropWhile isspace s = []"
    by (induction s) simp_all
  then have "strip s = rev (dropWhile isspace (rev []))"
    by (simp only: strip_def)
  then show ?thesis
    by simp
qed

text \<open>
  C10. For every text that is empty or consists of white space only,
  \<open>extract_drug_info\<close> returns the empty list and invokes no engine, neither the model
  query nor the rule-based fallback.
\<close>

theorem extract_drug_info_blank:
  "(\<forall>c \<in> set medical_text. isspace c) \<Longrightarrow> extract_drug_info self medical_text = ([], [])"
  by (simp add: extract_drug_info_def strip_blank)

theorem extract_drug_info_blank_witness:
  "extract_drug_info sample_engines [CHR 0x20, CHR 0x09, CHR 0x0A] = ([], [])"
proof -
  have "\<forall>c \<in> set [CHR 0x20, CHR 0x09, CHR 0x0A]. isspace c"
    by (simp add: isspace_def)
  from extract_drug_info_blank [OF this] show ?thesis .
qed

text \<open>On a text that is not blank the same engines are invoked and find a drug.\<close>

lemma extract_drug_info_invokes_engines: "extract_drug_info sample_engines ''Aspirin''
   = ([\<lparr> drug_name = ''Aspirin'', di_dosage = [], di_frequency = [], di_route = [] \<rparr>], [QueryGatortron, RuleBasedExtraction])"
  by (simp add: extract_drug_info_def sample_engines_def str_eval)

section \<open>The endpoints on an extraction without drugs\<close>

text \<open>
  C9 on the code. When the extraction yields no drug, the text endpoint raises status
  400 inside its \<open>try\<close> block, and its handler for \<open>Exception\<close> turns that into
  status 500 with the detail \<open>Analysis failed: ...\<close>, the status of an internal
  failure.
\<close>

theorem no_drugs_text_endpoint:
  "extract_drugs sv prescription_text = Inr [] \<Longrightarrow>
     analyze_prescription sv age prescription_text =
       Inl (HTTPException 500
         (''Analysis failed: '' @ http_str sv 400 ''No drugs found in prescription text''))"
  by (simp add: analyze_prescription_def analyze_prescription_body_def)

theorem no_drugs_text_endpoint_witness:
  "analyze_prescription sample_services 40 ''no medication here'' =
     Inl (HTTPException 500 ''Analysis failed: 400: No drugs found in prescription text'')"
proof -
  have "extract_drugs sample_services ''no medication here'' = Inr []"
    by (simp add: sample_services_def)
  from no_drugs_text_endpoint [OF this, of 40] show ?thesis
    by (simp add: sample_services_def status_and_detail_def digit_def)
qed

text \<open>
  The image endpoint re-raises an \<open>HTTPException\<close> unchanged, so there the same
  condition is surfaced with status 400 and its own message.
\<close>

lemma no_drugs_image_endpoint:
  "content_type img = Some ct \<Longrightarrow> startswith ''image/'' ct \<Longrightarrow> ocr_outcome img = Inr t \<Longrightarrow>
   10 \<le> length (strip t) \<Longrightarrow> extract_drugs sv t = Inr [] \<Longrightarrow>
     analyze_prescription_image sv age img =
       Inl (HTTPException 400
         ''No drugs found in prescription image. Please ensure the image contains a valid prescription.'')"
  by (auto simp: analyze_prescription_image_def analyze_prescription_image_body_def strip_def)

end
